theory Spec2Isabelle
  imports Complex_Main
begin

section \<open>Max-shape padding: \<open>pad_max_shape\<close> of shaping.py\<close>

text \<open>
  The repository is one function, \<open>pad_max_shape(arrays, before, after, value, tie_break)\<close>,
  ten lines of numpy. The embedding follows it line by line. What numpy does implicitly is
  written out: the shape of an array, broadcasting of the fraction argument against the
  shape matrix, the reduction \<open>max(axis=0)\<close>, the cast \<open>astype(int)\<close> and the padding
  primitive \<open>np.pad\<close> in constant mode.

  Modelling decisions.
  \<^item> An n-dimensional array is its \<open>shape\<close> together with its cells as nested blocks,
    one nesting level per axis (the way numpy prints it). The shape is kept beside the
    cells because an axis of length zero has no block to read the inner extents from.
  \<^item> The integer arrays of the source (\<open>shapes\<close>, \<open>margin\<close>, \<open>pad_before\<close>,
    \<open>pad_after\<close>) hold \<open>int\<close>; the 64-bit range of numpy's integers is not modelled.
  \<^item> The fractions are float64 in the source. They are modelled as \<open>real\<close>, so
    \<open>margin * before\<close> is the exact product: rounding of the product, infinities and NaN
    are outside the model. \<open>tie_break\<close> is an element-wise function on these values
    (a ufunc), \<open>np.floor\<close> and \<open>np.ceil\<close> return the integer as a float.
  \<^item> Every exception the ten lines can raise on numeric input is numpy's
    \<open>ValueError\<close> (shapes that do not broadcast, an inhomogeneous nested sequence,
    a reduction over no elements, a negative pad width), so the error type has this one
    value and the place where it arises is read off the function that returns it.
\<close>

subsection \<open>Arrays\<close>

datatype 'a nd = Cell 'a | Axis "'a nd list"

record 'a ndarray =
  shape :: "nat list"
  body :: "'a nd"

datatype error = ValueError

text \<open>\<open>conforms ns b\<close>: the block \<open>b\<close> is a regular nest of extents \<open>ns\<close>. Every numpy
  array is of this form; it is the well-formedness condition on an input array.\<close>

fun conforms :: "nat list \<Rightarrow> 'a nd \<Rightarrow> bool" where
  "conforms [] (Cell v) = True"
| "conforms (n # ns) (Axis xs) = (length xs = n \<and> list_all (conforms ns) xs)"
| "conforms _ _ = False"


text \<open>\<open>item b idx\<close> is \<open>x[idx]\<close> for a full index (one position per axis); \<open>None\<close>
  where numpy raises IndexError.\<close>

fun item :: "'a nd \<Rightarrow> nat list \<Rightarrow> 'a option" where
  "item (Cell v) [] = Some v"
| "item (Axis xs) (i # idx) = (if i < length xs then item (xs ! i) idx else None)"
| "item _ _ = None"

text \<open>\<open>np.full(shape, value)\<close>: the block of the given extents with every cell \<open>value\<close>.\<close>

fun full :: "nat list \<Rightarrow> 'a \<Rightarrow> 'a nd" where
  "full [] v = Cell v"
| "full (n # ns) v = Axis (replicate n (full ns v))"

subsection \<open>The padding primitive\<close>

text \<open>
  \<open>np.pad(x, pad_width, mode='constant', constant_values=value)\<close> is numpy's, not the
  repository's. It is modelled as numpy documents it and as the specification describes
  the collaborator (section 6): per axis a pair (before, after) of non-negative integers;
  the result has extent before + n + after along the axis, the old cells at offset
  before, and \<open>value\<close> in every new cell. A negative width is refused with ValueError
  ("index can't contain negative values"). \<open>pad_width\<close> is broadcast to one pair per
  axis: a single pair serves every axis, any other count than the rank is refused.
\<close>

definition padded_shape :: "nat list \<Rightarrow> (nat \<times> nat) list \<Rightarrow> nat list" where
  "padded_shape ns w = map2 (\<lambda>n (b, a). b + n + a) ns w"

fun pad_nd :: "nat list \<Rightarrow> (nat \<times> nat) list \<Rightarrow> 'a \<Rightarrow> 'a nd \<Rightarrow> 'a nd" where
  "pad_nd (n # ns) ((b, a) # w) v (Axis xs) =
     Axis (replicate b (full (padded_shape ns w) v)
           @ map (pad_nd ns w v) xs
           @ replicate a (full (padded_shape ns w) v))"
| "pad_nd _ _ v x = x"

definition np_pad :: "'a ndarray \<Rightarrow> (int \<times> int) list \<Rightarrow> 'a \<Rightarrow> error + 'a ndarray" where
  "np_pad x pad_width v =
     (let ndim = length (shape x) in
      if length pad_width \<noteq> ndim \<and> length pad_width \<noteq> 1 then Inl ValueError
      else if list_ex (\<lambda>(b, a). b < 0 \<or> a < 0) pad_width then Inl ValueError
      else
        let pairs = (if length pad_width = ndim then pad_width
                     else replicate ndim (hd pad_width));
            w = map (\<lambda>(b, a). (nat b, nat a)) pairs
        in Inr \<lparr>shape = padded_shape (shape x) w, body = pad_nd (shape x) w v (body x)\<rparr>)"

subsection \<open>Broadcasting\<close>

text \<open>
  The arguments \<open>before\<close> and \<open>after\<close> are "float, sequence, array_like": a number, a
  sequence of numbers, or a sequence of sequences. For an operation against the
  two-dimensional shape matrix numpy reads a number as a 1 x 1 matrix and a sequence of
  k numbers as a 1 x k matrix. An empty sequence is the array of shape (0,), one row of
  no columns. Rows of different lengths do not make an array (ValueError).
\<close>

datatype array_like = Scalar real | Seq1 "real list" | Seq2 "real list list"

fun as_matrix :: "array_like \<Rightarrow> error + real list list" where
  "as_matrix (Scalar f) = Inr [[f]]"
| "as_matrix (Seq1 fs) = Inr [fs]"
| "as_matrix (Seq2 []) = Inr [[]]"
| "as_matrix (Seq2 (r # rs)) =
     (if list_all (\<lambda>s. length s = length r) rs then Inr (r # rs) else Inl ValueError)"

text \<open>Two extents broadcast when they are equal or one of them is 1.\<close>

definition bdim :: "nat \<Rightarrow> nat \<Rightarrow> nat option" where
  "bdim m n = (if m = n then Some m else if m = 1 then Some n else if n = 1 then Some m else None)"

text \<open>An axis of extent 1 is repeated to the broadcast extent; an axis that already has
  it is left alone.\<close>

definition expand :: "nat \<Rightarrow> 'a list \<Rightarrow> 'a list" where
  "expand n xs = (if length xs = n then xs else concat (replicate n xs))"

definition ncols :: "'a list list \<Rightarrow> nat" where
  "ncols m = (case m of [] \<Rightarrow> 0 | row # _ \<Rightarrow> length row)"

text \<open>An element-wise binary operation on two matrices (each with at least one row),
  with numpy's broadcasting of both axes.\<close>

definition broadcast2 ::
  "('a \<Rightarrow> 'b \<Rightarrow> 'c) \<Rightarrow> 'a list list \<Rightarrow> 'b list list \<Rightarrow> error + 'c list list" where
  "broadcast2 f A B =
     (case (bdim (length A) (length B), bdim (ncols A) (ncols B)) of
        (Some n, Some k) \<Rightarrow>
          Inr (map2 (\<lambda>r s. map2 f (expand k r) (expand k s)) (expand n A) (expand n B))
      | _ \<Rightarrow> Inl ValueError)"

subsection \<open>The function\<close>

text \<open>Line 154, \<open>shapes = np.array([x.shape for x in arrays])\<close>: the N x R shape matrix.
  Shapes of different ranks do not make an array (ValueError). For no arrays the result
  is the empty array of shape (0,).\<close>

definition stack_shapes :: "'a ndarray list \<Rightarrow> error + int list list" where
  "stack_shapes arrays =
     (let rows = map (\<lambda>x. map int (shape x)) arrays in
      if list_all (\<lambda>r. length r = length (hd rows)) rows then Inr rows else Inl ValueError)"

text \<open>For broadcasting, the shape (0,) of the empty shape matrix is one row of no columns.\<close>

definition atleast_2d :: "int list list \<Rightarrow> int list list" where
  "atleast_2d shapes = (if shapes = [] then [[]] else shapes)"

text \<open>Lines 155 to 158: \<open>before\<close> as a matrix of fractions. \<open>None\<close> is Python's None.\<close>

definition before_fractions ::
  "int list list \<Rightarrow> array_like option \<Rightarrow> array_like \<Rightarrow> error + real list list" where
  "before_fractions shapes before after =
     (case before of
        Some b \<Rightarrow>
          (case as_matrix b of
             Inl e \<Rightarrow> Inl e
           | Inr B \<Rightarrow> broadcast2 (\<lambda>z f. real_of_int z + f)
                       (map (map (\<lambda>_. 0)) (atleast_2d shapes)) B)
      | None \<Rightarrow>
          (case as_matrix after of
             Inl e \<Rightarrow> Inl e
           | Inr A \<Rightarrow> broadcast2 (\<lambda>z f. real_of_int z - f)
                       (map (map (\<lambda>_. 1)) (atleast_2d shapes)) A))"

text \<open>Line 159, \<open>shapes.max(axis=0, keepdims=True)\<close>: the column-wise maximum, which
  numpy refuses for an array without rows (ValueError: zero-size array to reduction
  operation maximum which has no identity).\<close>

fun max_axis0 :: "int list list \<Rightarrow> error + int list" where
  "max_axis0 [] = Inl ValueError"
| "max_axis0 (row # rows) = Inr (foldl (map2 max) row rows)"

text \<open>Line 160, \<open>margin = max_size - shapes\<close>: the row \<open>max_size\<close> against every row.\<close>

definition margin_rows :: "int list \<Rightarrow> int list list \<Rightarrow> int list list" where
  "margin_rows max_size shapes = map (\<lambda>row. map2 (-) max_size row) shapes"

text \<open>\<open>.astype(int)\<close> on a float truncates towards zero.\<close>

definition astype_int :: "real \<Rightarrow> int" where
  "astype_int x = (if 0 \<le> x then \<lfloor>x\<rfloor> else \<lceil>x\<rceil>)"

definition np_floor :: "real \<Rightarrow> real" where
  "np_floor x = of_int \<lfloor>x\<rfloor>"

definition np_ceil :: "real \<Rightarrow> real" where
  "np_ceil x = of_int \<lceil>x\<rceil>"

text \<open>Line 161, one element of \<open>tie_break(margin * before.astype(float)).astype(int)\<close>.\<close>

definition before_count :: "(real \<Rightarrow> real) \<Rightarrow> int \<Rightarrow> real \<Rightarrow> int" where
  "before_count tie_break m f = astype_int (tie_break (real_of_int m * f))"

text \<open>Lines 154 to 163: the array \<open>pad\<close>, for every array and axis the pair
  (pad_before, pad_after).\<close>

definition pad_plan ::
  "'a ndarray list \<Rightarrow> array_like option \<Rightarrow> array_like \<Rightarrow> (real \<Rightarrow> real)
     \<Rightarrow> error + (int \<times> int) list list" where
  "pad_plan arrays before after tie_break =
     (case stack_shapes arrays of
        Inl e \<Rightarrow> Inl e
      | Inr shapes \<Rightarrow>
     (case before_fractions shapes before after of
        Inl e \<Rightarrow> Inl e
      | Inr bf \<Rightarrow>
     (case max_axis0 shapes of
        Inl e \<Rightarrow> Inl e
      | Inr max_size \<Rightarrow>
     (let margin = margin_rows max_size shapes in
     (case broadcast2 (before_count tie_break) margin bf of
        Inl e \<Rightarrow> Inl e
      | Inr pad_before \<Rightarrow>
     (case broadcast2 (-) margin pad_before of
        Inl e \<Rightarrow> Inl e
      | Inr pad_after \<Rightarrow> Inr (map2 zip pad_before pad_after)))))))"

text \<open>Line 164: the list comprehension over \<open>zip(arrays, pad)\<close>; the first \<open>np.pad\<close>
  that raises ends the call.\<close>

fun pad_each :: "('a ndarray \<times> (int \<times> int) list) list \<Rightarrow> 'a \<Rightarrow> error + 'a ndarray list" where
  "pad_each [] v = Inr []"
| "pad_each ((x, w) # rest) v =
     (case np_pad x w v of
        Inl e \<Rightarrow> Inl e
      | Inr y \<Rightarrow> (case pad_each rest v of Inl e \<Rightarrow> Inl e | Inr ys \<Rightarrow> Inr (y # ys)))"

definition pad_max_shape ::
  "'a ndarray list \<Rightarrow> array_like option \<Rightarrow> array_like \<Rightarrow> 'a \<Rightarrow> (real \<Rightarrow> real)
     \<Rightarrow> error + 'a ndarray list" where
  "pad_max_shape arrays before after v tie_break =
     (case pad_plan arrays before after tie_break of
        Inl e \<Rightarrow> Inl e
      | Inr pad \<Rightarrow> pad_each (zip arrays pad) v)"

subsection \<open>The terms of the specification\<close>

text \<open>The claims speak of the input and of the pad plan in the words below. These
  definitions follow the specification, not the code; the theorems relate the code to
  them.\<close>

text \<open>The N x R matrix with entry \<open>g i r\<close> in row \<open>i\<close> and column \<open>r\<close>.\<close>

definition table :: "nat \<Rightarrow> nat \<Rightarrow> (nat \<Rightarrow> nat \<Rightarrow> 'a) \<Rightarrow> 'a list list" where
  "table N R g = map (\<lambda>i. map (g i) [0..<R]) [0..<N]"

text \<open>All arrays have rank \<open>R\<close>.\<close>

definition same_rank :: "nat \<Rightarrow> 'a ndarray list \<Rightarrow> bool" where
  "same_rank R arrays = list_all (\<lambda>x. length (shape x) = R) arrays"

text \<open>TargetShape: along every axis the maximum extent over the collection.\<close>

definition max_shape :: "nat \<Rightarrow> 'a ndarray list \<Rightarrow> nat list" where
  "max_shape R arrays = map (\<lambda>r. Max (set (map (\<lambda>x. shape x ! r) arrays))) [0..<R]"

text \<open>Margin of array \<open>i\<close> along axis \<open>r\<close>: target size minus original size.\<close>

definition margin_at :: "nat \<Rightarrow> 'a ndarray list \<Rightarrow> nat \<Rightarrow> nat \<Rightarrow> int" where
  "margin_at R arrays i r = int (max_shape R arrays ! r) - int (shape (arrays ! i) ! r)"

text \<open>The fraction argument that the function reads: \<open>before\<close> when it is given,
  \<open>after\<close> otherwise.\<close>

definition fraction_spec :: "array_like option \<Rightarrow> array_like \<Rightarrow> array_like" where
  "fraction_spec before after = (case before of Some b \<Rightarrow> b | None \<Rightarrow> after)"

text \<open>The three recognised forms of a fraction argument and the entry each of them
  holds for array \<open>i\<close> and axis \<open>r\<close>: a scalar for all of them, a vector per axis, a
  matrix per array and axis (an axis of extent 1 serving every position).\<close>

fun entry :: "array_like \<Rightarrow> nat \<Rightarrow> nat \<Rightarrow> real" where
  "entry (Scalar f) i r = f"
| "entry (Seq1 fs) i r = (if length fs = 1 then fs ! 0 else fs ! r)"
| "entry (Seq2 rows) i r =
     (let row = (if length rows = 1 then rows ! 0 else rows ! i)
      in if length row = 1 then row ! 0 else row ! r)"

text \<open>SplitFraction: the share of the margin that goes before the data.\<close>

definition fraction_at :: "array_like option \<Rightarrow> array_like \<Rightarrow> nat \<Rightarrow> nat \<Rightarrow> real" where
  "fraction_at before after i r =
     (case before of Some b \<Rightarrow> entry b i r | None \<Rightarrow> 1 - entry after i r)"

text \<open>PadPlan: for array \<open>i\<close> and axis \<open>r\<close> the before count is the tie-break of margin
  times fraction, cast to an integer, and the after count is the margin minus the before
  count.\<close>

definition spec_plan ::
  "(real \<Rightarrow> real) \<Rightarrow> nat \<Rightarrow> 'a ndarray list \<Rightarrow> array_like option \<Rightarrow> array_like
     \<Rightarrow> (int \<times> int) list list" where
  "spec_plan tie_break R arrays before after =
     table (length arrays) R
       (\<lambda>i r. (before_count tie_break (margin_at R arrays i r) (fraction_at before after i r),
               margin_at R arrays i r
                 - before_count tie_break (margin_at R arrays i r) (fraction_at before after i r)))"

text \<open>A fraction argument is broadcastable to N x R, and all its entries are in [0, 1].\<close>

definition broadcastable :: "nat \<Rightarrow> nat \<Rightarrow> array_like \<Rightarrow> bool" where
  "broadcastable N R s =
     (case as_matrix s of
        Inl e \<Rightarrow> False
      | Inr B \<Rightarrow> (length B = N \<or> length B = 1) \<and> (ncols B = R \<or> ncols B = 1))"

fun entries :: "array_like \<Rightarrow> real list" where
  "entries (Scalar f) = [f]"
| "entries (Seq1 fs) = fs"
| "entries (Seq2 rows) = concat rows"

definition unit_fractions :: "array_like \<Rightarrow> bool" where
  "unit_fractions s = list_all (\<lambda>f. 0 \<le> f \<and> f \<le> 1) (entries s)"

text \<open>\<open>1 - after\<close>, entry by entry.\<close>

fun one_minus :: "array_like \<Rightarrow> array_like" where
  "one_minus (Scalar f) = Scalar (1 - f)"
| "one_minus (Seq1 fs) = Seq1 (map (\<lambda>f. 1 - f) fs)"
| "one_minus (Seq2 rows) = Seq2 (map (map (\<lambda>f. 1 - f)) rows)"


text \<open>\<open>np.arange(lo, hi)\<close>, the one-dimensional array of the integers from \<open>lo\<close> up to
  \<open>hi - 1\<close>, and \<open>np.zeros((n, n), dtype=int) + c\<close>, the square array filled with \<open>c\<close>:
  the arrays of the docstring's examples.\<close>

definition arange :: "int \<Rightarrow> int \<Rightarrow> int ndarray" where
  "arange lo hi = \<lparr>shape = [nat (hi - lo)], body = Axis (map Cell [lo..hi - 1])\<rparr>"

definition square :: "nat \<Rightarrow> int \<Rightarrow> int ndarray" where
  "square n c = \<lparr>shape = [n, n], body = full [n, n] c\<rparr>"

subsection \<open>Auxiliary notions for the proofs\<close>

text \<open>The entry of a matrix that broadcasting puts at row \<open>i\<close> and column \<open>r\<close>.\<close>

definition pick :: "'a list list \<Rightarrow> nat \<Rightarrow> nat \<Rightarrow> 'a" where
  "pick B i r =
     (let row = (if length B = 1 then B ! 0 else B ! i)
      in if length row = 1 then row ! 0 else row ! r)"

text \<open>Pad widths that passed the sign check of \<open>np_pad\<close>, as natural numbers.\<close>

definition widths :: "(int \<times> int) list \<Rightarrow> (nat \<times> nat) list" where
  "widths w = map (\<lambda>(b, a). (nat b, nat a)) w"

section \<open>Lemmas\<close>

subsection \<open>The padding primitive\<close>

lemma length_padded_shape: "length w = length ns \<Longrightarrow> length (padded_shape ns w) = length ns"
  by (simp add: padded_shape_def)

lemma padded_shape_Cons: "padded_shape (n # ns) ((b, a) # w) = (b + n + a) # padded_shape ns w"
  by (simp add: padded_shape_def)

lemma padded_shape_Nil: "padded_shape [] w = []"
  by (simp add: padded_shape_def)


lemma conforms_full: "conforms ns (full ns v)"
  by (induction ns) (auto simp: list_all_iff)

lemma conforms_Cell: "conforms ns (Cell v) = (ns = [])"
  by (cases ns) auto

lemma conforms_pad_nd:
  "length w = length ns \<Longrightarrow> conforms ns b \<Longrightarrow> conforms (padded_shape ns w) (pad_nd ns w v b)"
proof (induction ns w v b rule: pad_nd.induct)
  case (1 n ns b a w v xs)
  then show ?case
    by (auto simp: padded_shape_Cons list_all_iff conforms_full)
qed (auto simp: padded_shape_Nil conforms_Cell)




subsection \<open>Broadcasting\<close>

lemma length_table: "length (table N R g) = N"
  by (simp add: table_def)

lemma nth_table: "i < N \<Longrightarrow> table N R g ! i = map (g i) [0..<R]"
  by (simp add: table_def)

lemma nth_nth_table: "i < N \<Longrightarrow> r < R \<Longrightarrow> table N R g ! i ! r = g i r"
  by (simp add: table_def)

lemma rows_table: "row \<in> set (table N R g) \<Longrightarrow> length row = R"
  by (auto simp: table_def)

lemma ncols_table: "0 < N \<Longrightarrow> ncols (table N R g) = R"
  by (cases N) (simp_all add: table_def ncols_def upt_conv_Cons del: upt_Suc)

lemma table_cong: "(\<And>i r. i < N \<Longrightarrow> r < R \<Longrightarrow> g i r = h i r) \<Longrightarrow> table N R g = table N R h"
  by (simp add: table_def)

lemma table_eqI:
  "length M = N \<Longrightarrow> (\<And>i. i < N \<Longrightarrow> length (M ! i) = R) \<Longrightarrow> M = table N R (\<lambda>i r. M ! i ! r)"
  by (auto simp: table_def intro!: nth_equalityI)

lemma concat_replicate_single: "concat (replicate n [x]) = replicate n x"
  by (induction n) auto

lemma length_expand: "length xs = n \<or> length xs = 1 \<Longrightarrow> length (expand n xs) = n"
  by (cases xs) (auto simp: expand_def concat_replicate_single)

lemma nth_expand:
  "length xs = n \<or> length xs = 1 \<Longrightarrow> i < n \<Longrightarrow>
   expand n xs ! i = (if length xs = 1 then xs ! 0 else xs ! i)"
  by (cases xs) (auto simp: expand_def concat_replicate_single)

lemma bdim_fit: "k = n \<or> k = 1 \<Longrightarrow> bdim n k = Some n"
  by (auto simp: bdim_def)

lemma ncols_rect: "B \<noteq> [] \<Longrightarrow> \<forall>s \<in> set B. length s = k \<Longrightarrow> ncols B = k"
  by (cases B) (auto simp: ncols_def)

lemma broadcast2_fit:
  assumes N: "0 < N" and B: "B \<noteq> []" and rect: "\<forall>s \<in> set B. length s = k"
    and rows: "length B = N \<or> length B = 1" and cols: "k = R \<or> k = 1"
  shows "broadcast2 f (table N R a) B = Inr (table N R (\<lambda>i r. f (a i r) (pick B i r)))"
proof -
  let ?E = "expand N B"
  have lenE: "length ?E = N" using rows by (rule length_expand)
  have nthE: "?E ! i = (if length B = 1 then B ! 0 else B ! i)" if "i < N" for i
    using rows that by (rule nth_expand)
  have inB: "?E ! i \<in> set B" if "i < N" for i
    using nthE[OF that] rows that B by (auto simp: nth_mem)
  have row: "map2 f (expand R (map (a i) [0..<R])) (expand R (?E ! i))
               = map (\<lambda>r. f (a i r) (pick B i r)) [0..<R]" if i: "i < N" for i
    unfolding nth_table[OF i, symmetric]
  proof (rule nth_equalityI)
    have lk: "length (?E ! i) = R \<or> length (?E ! i) = 1" using inB[OF i] rect cols by auto
    then have l2: "length (expand R (?E ! i)) = R" by (rule length_expand)
    have l1: "expand R (table N R a ! i) = map (a i) [0..<R]"
      using i by (simp add: nth_table expand_def)
    show "length (map2 f (expand R (table N R a ! i)) (expand R (?E ! i)))
            = length (map (\<lambda>r. f (a i r) (pick B i r)) [0..<R])"
      using l1 l2 by simp
    fix r assume "r < length (map2 f (expand R (table N R a ! i)) (expand R (?E ! i)))"
    then have r: "r < R" using l1 l2 by simp
    have "expand R (?E ! i) ! r = pick B i r"
      using nth_expand[OF lk r] nthE[OF i] by (simp add: pick_def)
    then show "map2 f (expand R (table N R a ! i)) (expand R (?E ! i)) ! r
                 = map (\<lambda>r. f (a i r) (pick B i r)) [0..<R] ! r"
      using r l1 l2 by simp
  qed
  have "map2 (\<lambda>r s. map2 f (expand R r) (expand R s)) (table N R a) ?E
          = table N R (\<lambda>i r. f (a i r) (pick B i r))"
    by (rule nth_equalityI) (simp_all add: length_table lenE row nth_table)
  moreover have "bdim (length (table N R a)) (length B) = Some N"
    using rows by (simp add: length_table bdim_fit)
  moreover have "bdim (ncols (table N R a)) (ncols B) = Some R"
    using cols N ncols_rect[OF B rect] by (simp add: ncols_table bdim_fit)
  ultimately show ?thesis
    by (simp add: broadcast2_def expand_def length_table)
qed

lemma pick_table: "i < N \<Longrightarrow> r < R \<Longrightarrow> pick (table N R b) i r = b i r"
  by (auto simp: pick_def Let_def length_table nth_table)

lemma broadcast2_table:
  assumes "0 < N"
  shows "broadcast2 f (table N R a) (table N R b) = Inr (table N R (\<lambda>i r. f (a i r) (b i r)))"
proof -
  have "table N R b \<noteq> []" using assms by (auto simp: table_def)
  moreover have "\<forall>s \<in> set (table N R b). length s = R" by (simp add: rows_table)
  ultimately have "broadcast2 f (table N R a) (table N R b)
      = Inr (table N R (\<lambda>i r. f (a i r) (pick (table N R b) i r)))"
    using assms by (intro broadcast2_fit[where k = R]) (simp_all add: length_table)
  also have "table N R (\<lambda>i r. f (a i r) (pick (table N R b) i r)) = table N R (\<lambda>i r. f (a i r) (b i r))"
    by (rule table_cong) (simp add: pick_table)
  finally show ?thesis .
qed

subsection \<open>Shape matrix and target shape\<close>

lemma same_rankD: "same_rank R arrays \<Longrightarrow> i < length arrays \<Longrightarrow> length (shape (arrays ! i)) = R"
  by (simp add: same_rank_def list_all_length)

lemma stack_shapes_table:
  assumes "same_rank R arrays" and "arrays \<noteq> []"
  shows "stack_shapes arrays = Inr (table (length arrays) R (\<lambda>i r. int (shape (arrays ! i) ! r)))"
proof -
  let ?rows = "map (\<lambda>x. map int (shape x)) arrays"
  have len: "length (shape x) = R" if "x \<in> set arrays" for x
    using assms(1) that by (simp add: same_rank_def list_all_iff)
  have "length (hd ?rows) = R" using assms(2) len by (cases arrays) auto
  then have ok: "list_all (\<lambda>r. length r = length (hd ?rows)) ?rows"
    using len by (simp add: list_all_iff)
  have "?rows = table (length arrays) R (\<lambda>i r. int (shape (arrays ! i) ! r))"
    unfolding table_def
    by (rule nth_equalityI) (auto intro!: nth_equalityI simp: same_rankD[OF assms(1)])
  with ok show ?thesis by (simp add: stack_shapes_def Let_def)
qed

lemma foldl_max:
  fixes row :: "int list"
  shows "length row = R \<Longrightarrow> \<forall>s \<in> set rows. length s = R \<Longrightarrow>
    foldl (map2 max) row rows = map (\<lambda>r. Max (set (map (\<lambda>s. s ! r) (row # rows)))) [0..<R]"
proof (induction rows arbitrary: row)
  case Nil
  then show ?case by (auto intro!: nth_equalityI)
next
  case (Cons s rows)
  have "foldl (map2 max) (map2 max row s) rows
          = map (\<lambda>r. Max (set (map (\<lambda>t. t ! r) (map2 max row s # rows)))) [0..<R]"
    using Cons.prems by (intro Cons.IH) auto
  also have "\<dots> = map (\<lambda>r. Max (set (map (\<lambda>t. t ! r) (row # s # rows)))) [0..<R]"
  proof (rule map_cong[OF refl])
    fix r assume "r \<in> set [0..<R]"
    then have r: "r < R" by simp
    let ?S = "set (map (\<lambda>t. t ! r) rows)"
    have "Max (insert (max (row ! r) (s ! r)) ?S) = Max (insert (row ! r) (insert (s ! r) ?S))"
      by (cases "?S = {}") (simp_all add: max.assoc)
    then show "Max (set (map (\<lambda>t. t ! r) (map2 max row s # rows)))
                 = Max (set (map (\<lambda>t. t ! r) (row # s # rows)))"
      using r Cons.prems by simp
  qed
  finally show ?case by simp
qed

lemma max_axis0_table:
  assumes "same_rank R arrays" and "arrays \<noteq> []"
  shows "max_axis0 (table (length arrays) R (\<lambda>i r. int (shape (arrays ! i) ! r)))
           = Inr (map int (max_shape R arrays))"
proof -
  define rows where "rows = map (\<lambda>x. map int (shape x)) arrays"
  have len: "length (shape x) = R" if "x \<in> set arrays" for x
    using assms(1) that by (simp add: same_rank_def list_all_iff)
  have eq: "table (length arrays) R (\<lambda>i r. int (shape (arrays ! i) ! r)) = rows"
    unfolding table_def rows_def
    by (rule nth_equalityI) (auto intro!: nth_equalityI simp: same_rankD[OF assms(1)])
  obtain x xs where arrays: "arrays = x # xs" using assms(2) by (cases arrays) auto
  have rows: "rows = map int (shape x) # map (\<lambda>x. map int (shape x)) xs"
    by (simp add: rows_def arrays)
  have pt: "Max (set (map (\<lambda>s. s ! r) rows)) = int (max_shape R arrays ! r)" if r: "r < R" for r
  proof -
    have "set (map (\<lambda>s. s ! r) rows) = int ` set (map (\<lambda>x. shape x ! r) arrays)"
      using len r by (auto simp: image_iff rows_def)
    also have "Max \<dots> = int (Max (set (map (\<lambda>x. shape x ! r) arrays)))"
      using assms(2) by (intro mono_Max_commute[symmetric]) (auto simp: mono_def)
    finally show ?thesis using r by (simp add: max_shape_def)
  qed
  have "foldl (map2 max) (map int (shape x)) (map (\<lambda>x. map int (shape x)) xs)
      = map (\<lambda>r. Max (set (map (\<lambda>s. s ! r) rows))) [0..<R]"
    unfolding rows using len by (intro foldl_max) (auto simp: arrays)
  also have "\<dots> = map int (max_shape R arrays)"
  proof (rule nth_equalityI)
    show "length (map (\<lambda>r. Max (set (map (\<lambda>s. s ! r) rows))) [0..<R])
            = length (map int (max_shape R arrays))"
      by (simp add: max_shape_def)
    fix r assume "r < length (map (\<lambda>r. Max (set (map (\<lambda>s. s ! r) rows))) [0..<R])"
    then have r: "r < R" by simp
    then have "r < length (max_shape R arrays)" by (simp add: max_shape_def)
    then show "map (\<lambda>r. Max (set (map (\<lambda>s. s ! r) rows))) [0..<R] ! r
                 = map int (max_shape R arrays) ! r"
      using r pt[OF r] by simp
  qed
  finally show ?thesis unfolding eq rows by simp
qed


subsection \<open>The pad plan\<close>

lemma as_matrix_rect: "as_matrix s = Inr B \<Longrightarrow> B \<noteq> [] \<and> (\<forall>row \<in> set B. length row = ncols B)"
  by (cases s rule: as_matrix.cases) (auto simp: ncols_def list_all_iff split: if_splits)

lemma pick_entry:
  "as_matrix s = Inr B \<Longrightarrow> ncols B = R \<or> ncols B = 1 \<Longrightarrow> r < R \<Longrightarrow> pick B i r = entry s i r"
  by (cases s rule: as_matrix.cases) (auto simp: pick_def ncols_def Let_def split: if_splits)

lemma before_fractions_table:
  assumes N: "0 < N" and bc: "broadcastable N R (fraction_spec before after)"
  shows "before_fractions (table N R s) before after = Inr (table N R (fraction_at before after))"
proof -
  obtain B where B: "as_matrix (fraction_spec before after) = Inr B"
    and rows: "length B = N \<or> length B = 1" and cols: "ncols B = R \<or> ncols B = 1"
    using bc by (auto simp: broadcastable_def split: sum.splits)
  from as_matrix_rect[OF B] have ne: "B \<noteq> []" and rect: "\<forall>row \<in> set B. length row = ncols B"
    by auto
  have two: "atleast_2d (table N R s) = table N R s"
    using N by (auto simp: atleast_2d_def table_def)
  have const: "map (map (\<lambda>_. c)) (table N R s) = table N R (\<lambda>_ _. c)" for c :: int
    by (simp add: table_def)
  have fit: "broadcast2 f (table N R (\<lambda>_ _. c)) B = Inr (table N R (\<lambda>i r. f c (pick B i r)))"
    for f :: "int \<Rightarrow> real \<Rightarrow> real" and c
    using N ne rect rows cols by (rule broadcast2_fit)
  show ?thesis
  proof (cases before)
    case None
    then have "before_fractions (table N R s) before after
                 = Inr (table N R (\<lambda>i r. 1 - pick B i r))"
      using B by (simp add: before_fractions_def fraction_spec_def two const fit)
    also have "table N R (\<lambda>i r. 1 - pick B i r) = table N R (fraction_at before after)"
      using None pick_entry[OF B cols]
      by (intro table_cong) (simp add: fraction_at_def fraction_spec_def)
    finally show ?thesis .
  next
    case (Some b)
    then have "before_fractions (table N R s) before after
                 = Inr (table N R (\<lambda>i r. pick B i r))"
      using B by (simp add: before_fractions_def fraction_spec_def two const fit)
    also have "table N R (\<lambda>i r. pick B i r) = table N R (fraction_at before after)"
      using Some pick_entry[OF B cols]
      by (intro table_cong) (simp add: fraction_at_def fraction_spec_def)
    finally show ?thesis .
  qed
qed

lemma margin_rows_table:
  "length mx = R \<Longrightarrow> margin_rows mx (table N R s) = table N R (\<lambda>i r. mx ! r - s i r)"
  unfolding margin_rows_def table_def
  by (auto intro!: nth_equalityI)

lemma zip_table:
  "map2 zip (table N R a) (table N R b) = table N R (\<lambda>i r. (a i r, b i r))"
  unfolding table_def
  by (auto intro!: nth_equalityI)

lemma pad_plan_table:
  assumes rank: "same_rank R arrays" and ne: "arrays \<noteq> []"
    and bc: "broadcastable (length arrays) R (fraction_spec before after)"
  shows "pad_plan arrays before after tie_break = Inr (spec_plan tie_break R arrays before after)"
proof -
  let ?N = "length arrays"
  have N: "0 < ?N" using ne by simp
  have margin: "margin_rows (map int (max_shape R arrays))
                  (table ?N R (\<lambda>i r. int (shape (arrays ! i) ! r)))
                = table ?N R (margin_at R arrays)"
    by (subst margin_rows_table[where R = R])
       (auto simp: max_shape_def margin_at_def intro!: table_cong)
  show ?thesis
    by (simp add: pad_plan_def stack_shapes_table[OF rank ne] before_fractions_table[OF N bc]
        max_axis0_table[OF rank ne] margin broadcast2_table[OF N] zip_table spec_plan_def)
qed

subsection \<open>Padding every array\<close>


lemma np_pad_Inr:
  assumes "np_pad x w v = Inr y" and "length w = length (shape x)"
  shows "(\<forall>p \<in> set w. 0 \<le> fst p \<and> 0 \<le> snd p) \<and>
         y = \<lparr>shape = padded_shape (shape x) (widths w),
               body = pad_nd (shape x) (widths w) v (body x)\<rparr>"
  using assms by (auto simp: np_pad_def widths_def Let_def list_ex_iff split: if_splits)









subsection \<open>Valid calls\<close>







lemma item_in_range: "conforms ns b \<Longrightarrow> list_all2 (<) idx ns \<Longrightarrow> \<exists>c. item b idx = Some c"
proof (induction ns b arbitrary: idx rule: conforms.induct)
  case (2 n ns xs)
  then show ?case by (auto simp: list_all2_Cons2 list_all_length)
qed (auto simp: list_all2_Cons2)

subsection \<open>The derived fraction \<open>1 - after\<close>\<close>

lemma expand_map: "expand n (map g xs) = map g (expand n xs)"
  by (simp add: expand_def map_concat)

lemma ncols_map: "ncols (map (map g) m) = ncols m"
  by (cases m) (simp_all add: ncols_def)

lemma broadcast2_map1: "broadcast2 f (map (map g) A) B = broadcast2 (\<lambda>a. f (g a)) A B"
  by (simp add: broadcast2_def ncols_map expand_map zip_map1 split_def
      split: option.splits)

lemma broadcast2_map2: "broadcast2 f A (map (map h) B) = broadcast2 (\<lambda>a b. f a (h b)) A B"
  by (simp add: broadcast2_def ncols_map expand_map zip_map2 split_def
      split: option.splits)

lemma as_matrix_one_minus:
  "as_matrix (one_minus s) =
     (case as_matrix s of Inl e \<Rightarrow> Inl e | Inr A \<Rightarrow> Inr (map (map (\<lambda>f. 1 - f)) A))"
  by (cases s rule: as_matrix.cases) (simp_all add: list_all_iff)

lemma before_fractions_one_minus:
  "before_fractions shapes None after = before_fractions shapes (Some (one_minus after)) a"
  by (simp add: before_fractions_def as_matrix_one_minus broadcast2_map1 broadcast2_map2
      split: sum.splits)

subsection \<open>Evaluation\<close>

lemma error_ValueError: "(e :: error) = ValueError"
  by (cases e) simp

lemmas list_eval = upt_conv_Cons upto_rec1

lemmas eval_defs = pad_max_shape_def pad_plan_def stack_shapes_def before_fractions_def
  atleast_2d_def broadcast2_def bdim_def ncols_def expand_def margin_rows_def before_count_def
  astype_int_def np_floor_def np_ceil_def np_pad_def padded_shape_def arange_def square_def

subsection \<open>The docstring's examples\<close>

text \<open>The doctests of \<open>pad_max_shape\<close>, evaluated in the model: the results are the
  arrays the docstring prints.\<close>

lemma example_default:
  "pad_max_shape [arange 0 3, arange 0 5, arange 0 7] None (Scalar 1) 0 np_floor =
     Inr [\<lparr>shape = [7], body = Axis (map Cell [0, 1, 2, 0, 0, 0, 0])\<rparr>,
          \<lparr>shape = [7], body = Axis (map Cell [0, 1, 2, 3, 4, 0, 0])\<rparr>,
          \<lparr>shape = [7], body = Axis (map Cell [0, 1, 2, 3, 4, 5, 6])\<rparr>]"
  by (simp add: eval_defs list_eval eval_nat_numeral)

lemma example_before_one:
  "pad_max_shape [arange 0 3, arange 0 5, arange 0 7] (Some (Scalar 1)) (Scalar 1) 9 np_floor =
     Inr [\<lparr>shape = [7], body = Axis (map Cell [9, 9, 9, 9, 0, 1, 2])\<rparr>,
          \<lparr>shape = [7], body = Axis (map Cell [9, 9, 0, 1, 2, 3, 4])\<rparr>,
          \<lparr>shape = [7], body = Axis (map Cell [0, 1, 2, 3, 4, 5, 6])\<rparr>]"
  by (simp add: eval_defs list_eval eval_nat_numeral)

lemma example_after_half:
  "pad_max_shape [arange 0 3, arange 0 5, arange 0 7] None (Scalar (1 / 2)) 9 np_floor =
     Inr [\<lparr>shape = [7], body = Axis (map Cell [9, 9, 0, 1, 2, 9, 9])\<rparr>,
          \<lparr>shape = [7], body = Axis (map Cell [9, 0, 1, 2, 3, 4, 9])\<rparr>,
          \<lparr>shape = [7], body = Axis (map Cell [0, 1, 2, 3, 4, 5, 6])\<rparr>]"
  by (simp add: eval_defs list_eval eval_nat_numeral)

lemma example_tie_break:
  "pad_max_shape [arange 1 4, arange 0 8] (Some (Scalar (1 / 2))) (Scalar 1) 0 np_floor =
     Inr [\<lparr>shape = [8], body = Axis (map Cell [0, 0, 1, 2, 3, 0, 0, 0])\<rparr>, arange 0 8] \<and>
   pad_max_shape [arange 1 4, arange 0 8] (Some (Scalar (1 / 2))) (Scalar 1) 0 np_ceil =
     Inr [\<lparr>shape = [8], body = Axis (map Cell [0, 0, 0, 1, 2, 3, 0, 0])\<rparr>, arange 0 8]"
  by (simp add: eval_defs list_eval eval_nat_numeral)

lemma example_per_axis:
  "pad_plan [square 3 3, square 5 5, square 7 7] (Some (Seq1 [0, 1 / 2])) (Scalar 1) np_floor =
     Inr [[(0, 4), (2, 2)], [(0, 2), (1, 1)], [(0, 0), (0, 0)]] \<and>
   pad_plan [square 3 3, square 5 5, square 7 7]
       (Some (Seq2 [[0, 1 / 2], [1 / 2, 1], [0, 0]])) (Scalar 1) np_floor =
     Inr [[(0, 4), (2, 2)], [(1, 1), (2, 0)], [(0, 0), (0, 0)]]"
  by (simp add: eval_defs)

section \<open>The claims\<close>











text \<open>
  C6 (tie-break directionality). For a margin of 5 and the fraction 0.5 the floor
  tie-break gives 2 cells before and 3 after, the ceil tie-break 3 before and 2 after:
  for the single element of line 161 and 162, and for the whole plan of the docstring's
  example \<open>[np.arange(1, 4), np.arange(8)]\<close> with \<open>before=0.5\<close>, whose first array has
  margin 5.
\<close>

theorem tie_break_directionality:
  "before_count np_floor 5 (1 / 2) = 2 \<and> 5 - before_count np_floor 5 (1 / 2) = 3 \<and>
   before_count np_ceil 5 (1 / 2) = 3 \<and> 5 - before_count np_ceil 5 (1 / 2) = 2 \<and>
   pad_plan [arange 1 4, arange 0 8] (Some (Scalar (1 / 2))) (Scalar 1) np_floor
     = Inr [[(2, 3)], [(0, 0)]] \<and>
   pad_plan [arange 1 4, arange 0 8] (Some (Scalar (1 / 2))) (Scalar 1) np_ceil
     = Inr [[(3, 2)], [(0, 0)]]"
  by (simp add: eval_defs)

text \<open>
  C7 (\<open>after\<close> is ignored when \<open>before\<close> is given). With a \<open>before\<close> argument
  supplied, any two values of \<open>after\<close> give the same result, for every collection, fill
  value and tie-break: the same list of arrays or the same failure.
\<close>

theorem after_ignored:
  "pad_max_shape arrays (Some b) a1 v tie_break = pad_max_shape arrays (Some b) a2 v tie_break"
  unfolding pad_max_shape_def pad_plan_def before_fractions_def option.case ..

text \<open>
  C8 (\<open>before\<close> omitted). A call without \<open>before\<close> gives the result of the call with
  \<open>before = 1 - after\<close> (whatever \<open>after\<close> the second call is given), for every
  collection, fill value and tie-break; with the default \<open>after = 1\<close> that is the call
  with \<open>before = 0\<close>. With the defaults (\<open>after = 1\<close>, floor) the plan of a non-empty
  collection of one rank puts nothing before the data and the whole margin after it.
\<close>

theorem before_omitted:
  "pad_max_shape arrays None after v tie_break
     = pad_max_shape arrays (Some (one_minus after)) a v tie_break \<and>
   pad_max_shape arrays None (Scalar 1) v tie_break
     = pad_max_shape arrays (Some (Scalar 0)) a v tie_break \<and>
   (arrays \<noteq> [] \<and> same_rank R arrays \<longrightarrow>
      pad_plan arrays None (Scalar 1) np_floor
        = Inr (table (length arrays) R (\<lambda>i r. (0, margin_at R arrays i r))))"
proof (intro conjI impI)
  show eq: "pad_max_shape arrays None after v tie_break
     = pad_max_shape arrays (Some (one_minus after)) a v tie_break" for after
    unfolding pad_max_shape_def pad_plan_def before_fractions_one_minus[of _ after a] ..
  from eq[of "Scalar 1"]
  show "pad_max_shape arrays None (Scalar 1) v tie_break
     = pad_max_shape arrays (Some (Scalar 0)) a v tie_break"
    by simp
  assume "arrays \<noteq> [] \<and> same_rank R arrays"
  then have "pad_plan arrays None (Scalar 1) np_floor
      = Inr (spec_plan np_floor R arrays None (Scalar 1))"
    by (intro pad_plan_table) (simp_all add: broadcastable_def fraction_spec_def ncols_def)
  also have "spec_plan np_floor R arrays None (Scalar 1)
      = table (length arrays) R (\<lambda>i r. (0, margin_at R arrays i r))"
    by (simp add: spec_plan_def fraction_at_def before_count_def np_floor_def astype_int_def)
  finally show "pad_plan arrays None (Scalar 1) np_floor
        = Inr (table (length arrays) R (\<lambda>i r. (0, margin_at R arrays i r)))" .
qed

text \<open>The theorem at a concrete input.\<close>

theorem before_omitted_witness:
  "[square 3 3, square 5 5, square 7 7] \<noteq> [] \<and>
   same_rank 2 [square 3 3, square 5 5, square 7 7] \<and>
   pad_plan [square 3 3, square 5 5, square 7 7] None (Scalar 1) np_floor
     = Inr [[(0, 4), (0, 4)], [(0, 2), (0, 2)], [(0, 0), (0, 0)]] \<and>
   pad_max_shape [arange 0 3, arange 0 5] None (Scalar (1 / 4)) 9 np_floor
     = pad_max_shape [arange 0 3, arange 0 5] (Some (Scalar (3 / 4))) (Scalar 1) 9 np_floor"
proof -
  let ?arrays = "[square 3 3, square 5 5, square 7 7]"
  have h: "?arrays \<noteq> [] \<and> same_rank 2 ?arrays" by (simp add: same_rank_def square_def)
  have m: "max_shape 2 ?arrays = [7, 7]"
    by (simp add: max_shape_def square_def list_eval)
  have t: "table (length ?arrays) 2 (\<lambda>i r. (0, margin_at 2 ?arrays i r))
             = [[(0, 4), (0, 4)], [(0, 2), (0, 2)], [(0, 0), (0, 0)]]"
    unfolding margin_at_def m by (simp add: table_def list_eval square_def)
  from before_omitted[where arrays = ?arrays and R = 2] h
  have "pad_plan ?arrays None (Scalar 1) np_floor
          = Inr [[(0, 4), (0, 4)], [(0, 2), (0, 2)], [(0, 0), (0, 0)]]"
    unfolding t by blast
  moreover from before_omitted[where arrays = "[arange 0 3, arange 0 5]"
      and after = "Scalar (1 / 4)" and a = "Scalar 1" and v = 9 and tie_break = np_floor]
  have "pad_max_shape [arange 0 3, arange 0 5] None (Scalar (1 / 4)) 9 np_floor
     = pad_max_shape [arange 0 3, arange 0 5] (Some (Scalar (3 / 4))) (Scalar 1) 9 np_floor"
    by simp
  ultimately show ?thesis using h by simp
qed

text \<open>
  C9 (fractions are not validated). On the arrays of lengths 3 and 8 the first array has
  margin 5. With \<open>before = 2\<close>, outside [0, 1], the plan is computed without any check: 10
  cells before (more than the margin) and -5 after. The plan reaches the padding
  primitive as it is, and it is \<open>np_pad\<close> that refuses the negative width, which ends the
  call. With \<open>before = -1\<close> the before count is negative, -5, and the call ends the same
  way.
\<close>

theorem fractions_not_validated:
  "\<not> unit_fractions (Scalar 2) \<and>
   margin_at 1 [arange 1 4, arange 0 8] 0 0 = 5 \<and>
   pad_plan [arange 1 4, arange 0 8] (Some (Scalar 2)) (Scalar 1) np_floor
     = Inr [[(10, - 5)], [(0, 0)]] \<and>
   np_pad (arange 1 4) [(10, - 5)] 0 = Inl ValueError \<and>
   pad_max_shape [arange 1 4, arange 0 8] (Some (Scalar 2)) (Scalar 1) 0 np_floor
     = Inl ValueError \<and>
   \<not> unit_fractions (Scalar (- 1)) \<and>
   pad_plan [arange 1 4, arange 0 8] (Some (Scalar (- 1))) (Scalar 1) np_floor
     = Inr [[(- 5, 10)], [(0, 0)]] \<and>
   pad_max_shape [arange 1 4, arange 0 8] (Some (Scalar (- 1))) (Scalar 1) 0 np_floor
     = Inl ValueError"
  by (simp add: eval_defs unit_fractions_def margin_at_def max_shape_def)

text \<open>
  C10 (the empty collection). For no arrays the shape matrix is empty, its column-wise
  maximum is refused, and the call fails while the plan is computed, before any array is
  padded: whatever the other arguments are, the result is the error and not the empty
  list.
\<close>

theorem empty_collection_fails:
  "stack_shapes ([] :: 'a ndarray list) = Inr [] \<and>
   max_axis0 [] = Inl ValueError \<and>
   pad_plan ([] :: 'a ndarray list) before after tie_break = Inl ValueError \<and>
   pad_max_shape ([] :: 'a ndarray list) before after v tie_break = Inl ValueError"
  by (auto simp: pad_max_shape_def pad_plan_def stack_shapes_def error_ValueError
      split: sum.splits)

end
